theory Spec2Isabelle
  imports Complex_Main "HOL-Library.Multiset"
begin

section \<open>The scaling engine of \<^verbatim>\<open>core_scaling_engine.py\<close>\<close>

text \<open>
  The class \<^verbatim>\<open>UltraFastScalingEngine\<close> scores products, ranks the ones that pass a
  confidence gate, and runs the proposed actions as one batch of asyncio tasks.
  Python floats are idealised as \<^typ>\<open>real\<close>: rounding, infinities and NaN are not
  modelled. Python dictionaries with a fixed set of keys are records; a key that the
  source reads with \<^verbatim>\<open>.get(key, default)\<close> or that a caller may leave out is an
  \<^typ>\<open>'a option\<close> field (\<open>None\<close> = key absent). Values have the types the source
  computes with (numbers, lists of numbers, strings). Logging is not modelled.
\<close>

subsection \<open>Python primitives\<close>

datatype py_error = ZeroDivisionError | KeyError

text \<open>\<^verbatim>\<open>d.get(key, default)\<close>\<close>

definition dict_get :: "'a option \<Rightarrow> 'a \<Rightarrow> 'a" where
  "dict_get v d = (case v of None \<Rightarrow> d | Some x \<Rightarrow> x)"

text \<open>\<^verbatim>\<open>d[key]\<close>, which raises KeyError on an absent key.\<close>

definition dict_item :: "'a option \<Rightarrow> py_error + 'a" where
  "dict_item v = (case v of None \<Rightarrow> Inl KeyError | Some x \<Rightarrow> Inr x)"

text \<open>\<^verbatim>\<open>a / b\<close>, which raises ZeroDivisionError when \<open>b\<close> is zero.\<close>

definition py_truediv :: "real \<Rightarrow> real \<Rightarrow> py_error + real" where
  "py_truediv a b = (if b = 0 then Inl ZeroDivisionError else Inr (a / b))"

text \<open>
  \<^verbatim>\<open>xs[lo:hi]\<close>: a negative bound counts from the end, every bound is clipped to the
  list, an absent bound is the respective end of the list.
\<close>

definition slice_index :: "nat \<Rightarrow> int \<Rightarrow> nat" where
  "slice_index n i = (if i < 0 then nat (max 0 (int n + i)) else min n (nat i))"

definition py_slice :: "'a list \<Rightarrow> int option \<Rightarrow> int option \<Rightarrow> 'a list" where
  "py_slice xs lo hi =
     (let n = length xs;
          a = (case lo of None \<Rightarrow> 0 | Some i \<Rightarrow> slice_index n i);
          b = (case hi of None \<Rightarrow> n | Some j \<Rightarrow> slice_index n j)
      in take (b - a) (drop a xs))"

subsection \<open>Data\<close>

text \<open>
  A product as the caller supplies it. The keys \<^verbatim>\<open>conversion_rate\<close>,
  \<^verbatim>\<open>traffic_volume\<close> and \<^verbatim>\<open>profit_margin\<close> carry the prefix \<open>p_\<close> here, because the
  metrics dictionary has keys of the same names.
\<close>

record product_dict =
  name :: "string option"
  daily_revenue :: "real option"
  historical_data :: "real list option"
  p_conversion_rate :: "real option"
  p_traffic_volume :: "real option"
  p_profit_margin :: "real option"
  cac :: "real option"
  ltv :: "real option"

record metrics_dict =
  current_revenue :: "real option"
  growth_rate :: "real option"
  conversion_rate :: "real option"
  traffic_volume :: "real option"
  profit_margin :: "real option"
  customer_acquisition_cost :: "real option"
  lifetime_value :: "real option"

text \<open>An action; the key \<^verbatim>\<open>type\<close> is the field \<open>atype\<close>.\<close>

record action_dict =
  atype :: "string option"
  multiplier :: "real option"
  budget :: "real option"
  expected_increase :: "real option"

record strategy_dict =
  actions :: "action_dict list"
  budget_allocation :: "(string \<times> real) list option"
  timeline :: string
  expected_roi :: "real option"
  risk_level :: "string option"

record candidate_dict =
  product :: product_dict
  metrics :: metrics_dict
  opportunity_score :: real
  scaling_strategy :: strategy_dict
  estimated_roi :: real

text \<open>
  The result of one action. The dictionary that stands for a timeout has no
  \<^verbatim>\<open>action_type\<close> key.
\<close>

record action_result =
  investment :: real
  expected_return :: real
  action_type :: "string option"
  status :: string

text \<open>
  The report of a batch. Its key \<^verbatim>\<open>expected_return\<close> is the field
  \<open>total_expected_return\<close> here (the name is taken by the action result).
\<close>

record report_dict =
  executed_actions :: nat
  total_investment :: real
  total_expected_return :: real
  failed_actions :: nat
  success_rate :: real
  execution_time :: real

record config_dict =
  openai_api_key :: "string option"
  daily_target :: real
  auto_scaling_enabled :: bool
  max_ad_spend :: real
  risk_tolerance :: real

record thresholds_dict =
  revenue_threshold :: real
  growth_rate_threshold :: real
  conversion_threshold :: real
  max_concurrent_scales :: int

record multipliers_dict =
  ad_spend :: real
  audience_expansion :: real
  price_optimization :: real
  content_variation :: real
  platform_expansion :: real

text \<open>The key \<^verbatim>\<open>success_rate\<close> of the performance metrics is \<open>last_success_rate\<close>.\<close>

record performance_dict =
  scales_executed :: nat
  last_success_rate :: real
  total_revenue_increase :: real
  last_optimization :: string

record engine =
  config :: config_dict
  scaling_thresholds :: thresholds_dict
  scaling_multipliers :: multipliers_dict
  performance_metrics :: performance_dict

text \<open>
  The engine that \<^verbatim>\<open>__init__\<close> builds when no environment variable is set; the
  time stamp of the construction is a parameter.
\<close>

definition default_engine :: "string \<Rightarrow> engine" where
  "default_engine now =
     \<lparr>config = \<lparr>openai_api_key = None, daily_target = 1000, auto_scaling_enabled = True,
                 max_ad_spend = 1000, risk_tolerance = 0.7\<rparr>,
      scaling_thresholds = \<lparr>revenue_threshold = 500, growth_rate_threshold = 20,
                 conversion_threshold = 2, max_concurrent_scales = 5\<rparr>,
      scaling_multipliers = \<lparr>ad_spend = 1.5, audience_expansion = 2.0,
                 price_optimization = 1.3, content_variation = 1.8, platform_expansion = 2.5\<rparr>,
      performance_metrics = \<lparr>scales_executed = 0, last_success_rate = 95.0,
                 total_revenue_increase = 0, last_optimization = now\<rparr>\<rparr>"

subsection \<open>Metrics of a product\<close>

text \<open>The body of the \<^verbatim>\<open>try\<close> block of \<^verbatim>\<open>_calculate_product_metrics\<close>.\<close>

definition calculate_product_metrics_try :: "product_dict \<Rightarrow> py_error + metrics_dict" where
  "calculate_product_metrics_try p =
     (let current_revenue = dict_get (daily_revenue p) 0;
          historical_data = dict_get (historical_data p) []
      in if length historical_data < 2 then
           Inr \<lparr>current_revenue = Some current_revenue,
                growth_rate = Some 25.0,
                conversion_rate = Some (dict_get (p_conversion_rate p) 2.5),
                traffic_volume = Some (dict_get (p_traffic_volume p) 1000),
                profit_margin = Some (dict_get (p_profit_margin p) 0.7),
                customer_acquisition_cost = Some (dict_get (cac p) 50),
                lifetime_value = Some (dict_get (ltv p) 200)\<rparr>
         else
           (case py_truediv (sum_list (py_slice historical_data (Some (- 7)) None))
                            (real (min 7 (length historical_data))) of
              Inl e \<Rightarrow> Inl e
            | Inr recent_avg \<Rightarrow>
           (case py_truediv (sum_list (py_slice historical_data (Some (- 14)) (Some (- 7))))
                            (real (min 7 (length (py_slice historical_data (Some (- 14)) (Some (- 7)))))) of
              Inl e \<Rightarrow> Inl e
            | Inr older_avg \<Rightarrow>
                Inr \<lparr>current_revenue = Some current_revenue,
                     growth_rate = Some (if older_avg > 0
                                         then (recent_avg - older_avg) / older_avg * 100
                                         else 25.0),
                     conversion_rate = Some (dict_get (p_conversion_rate p) 2.5),
                     traffic_volume = Some (dict_get (p_traffic_volume p) 1000),
                     profit_margin = Some (dict_get (p_profit_margin p) 0.7),
                     customer_acquisition_cost = Some (dict_get (cac p) 50),
                     lifetime_value = Some (dict_get (ltv p) 200)\<rparr>)))"

text \<open>The dictionary that the \<^verbatim>\<open>except\<close> branch returns.\<close>

definition metrics_on_error :: metrics_dict where
  "metrics_on_error =
     \<lparr>current_revenue = Some 0, growth_rate = Some 0, conversion_rate = Some 0,
      traffic_volume = Some 0, profit_margin = Some 0.7,
      customer_acquisition_cost = Some 50, lifetime_value = Some 200\<rparr>"

definition calculate_product_metrics :: "product_dict \<Rightarrow> metrics_dict" where
  "calculate_product_metrics p =
     (case calculate_product_metrics_try p of Inl e \<Rightarrow> metrics_on_error | Inr m \<Rightarrow> m)"

subsection \<open>Opportunity score\<close>

definition calculate_opportunity_score_try :: "engine \<Rightarrow> metrics_dict \<Rightarrow> py_error + real" where
  "calculate_opportunity_score_try e m =
     (case py_truediv (dict_get (current_revenue m) 0)
                      (revenue_threshold (scaling_thresholds e)) of
        Inl err \<Rightarrow> Inl err
      | Inr q \<Rightarrow>
          (let revenue_score = min q 1.0;
               growth_score = min (dict_get (growth_rate m) 0 / 100) 1.0;
               conversion_score = min (dict_get (conversion_rate m) 0 / 10) 1.0;
               profit_score = min (dict_get (profit_margin m) 0) 1.0;
               ltv = dict_get (lifetime_value m) 0;
               cac = dict_get (customer_acquisition_cost m) 1;
               efficiency_score = (if cac > 0 then min (ltv / cac / 5) 1.0 else 0);
               total_score = revenue_score * 0.3 + growth_score * 0.25
                           + conversion_score * 0.2 + profit_score * 0.15
                           + efficiency_score * 0.1
           in Inr (max 0.0 (min 1.0 total_score))))"

definition calculate_opportunity_score :: "engine \<Rightarrow> metrics_dict \<Rightarrow> real" where
  "calculate_opportunity_score e m =
     (case calculate_opportunity_score_try e m of Inl err \<Rightarrow> 0.0 | Inr s \<Rightarrow> s)"

subsection \<open>Strategy and ROI\<close>

text \<open>\<^verbatim>\<open>sum(action[key] for action in actions)\<close>\<close>

fun sum_items :: "(action_dict \<Rightarrow> real option) \<Rightarrow> action_dict list \<Rightarrow> py_error + real" where
  "sum_items key [] = Inr 0"
| "sum_items key (a # as) =
     (case dict_item (key a) of
        Inl e \<Rightarrow> Inl e
      | Inr v \<Rightarrow> (case sum_items key as of Inl e \<Rightarrow> Inl e | Inr s \<Rightarrow> Inr (v + s)))"

definition strategy_actions :: "engine \<Rightarrow> metrics_dict \<Rightarrow> action_dict list" where
  "strategy_actions e m =
     (let current_revenue = dict_get (current_revenue m) 0;
          growth_rate = dict_get (growth_rate m) 0;
          conversion_rate = dict_get (conversion_rate m) 0
      in (if current_revenue \<ge> revenue_threshold (scaling_thresholds e) then
            [\<lparr>atype = Some ''ad_spend_increase'',
              multiplier = Some (ad_spend (scaling_multipliers e)),
              budget = Some (min (current_revenue * 0.3) (max_ad_spend (config e))),
              expected_increase = Some (current_revenue * 0.5)\<rparr>]
          else [])
       @ (if growth_rate > growth_rate_threshold (scaling_thresholds e) then
            [\<lparr>atype = Some ''audience_expansion'',
              multiplier = Some (audience_expansion (scaling_multipliers e)),
              budget = Some (current_revenue * 0.2),
              expected_increase = Some (current_revenue * 0.8)\<rparr>]
          else [])
       @ (if conversion_rate > conversion_threshold (scaling_thresholds e) then
            [\<lparr>atype = Some ''platform_expansion'',
              multiplier = Some (platform_expansion (scaling_multipliers e)),
              budget = Some (current_revenue * 0.4),
              expected_increase = Some (current_revenue * 1.2)\<rparr>]
          else [])
       @ [\<lparr>atype = Some ''price_optimization'',
            multiplier = Some (price_optimization (scaling_multipliers e)),
            budget = Some (current_revenue * 0.1),
            expected_increase = Some (current_revenue * 0.3)\<rparr>])"

definition generate_scaling_strategy_try ::
  "engine \<Rightarrow> product_dict \<Rightarrow> metrics_dict \<Rightarrow> py_error + strategy_dict" where
  "generate_scaling_strategy_try e p m =
     (let acts = strategy_actions e m
      in case sum_items budget acts of
           Inl err \<Rightarrow> Inl err
         | Inr invested \<Rightarrow>
        (case sum_items expected_increase acts of
           Inl err \<Rightarrow> Inl err
         | Inr returned \<Rightarrow>
             Inr \<lparr>actions = acts, budget_allocation = Some [], timeline = ''immediate'',
                  expected_roi = Some (if invested > 0
                                       then (returned / invested - 1) * 100
                                       else 0),
                  risk_level = Some ''medium''\<rparr>))"

definition strategy_on_error :: strategy_dict where
  "strategy_on_error =
     \<lparr>actions = [], budget_allocation = None, timeline = ''immediate'',
      expected_roi = Some 0, risk_level = Some ''low''\<rparr>"

definition generate_scaling_strategy ::
  "engine \<Rightarrow> product_dict \<Rightarrow> metrics_dict \<Rightarrow> strategy_dict" where
  "generate_scaling_strategy e p m =
     (case generate_scaling_strategy_try e p m of
        Inl err \<Rightarrow> strategy_on_error | Inr s \<Rightarrow> s)"

text \<open>
  \<^verbatim>\<open>_estimate_roi\<close>: nothing in its \<^verbatim>\<open>try\<close> block raises on numbers and strings, so
  the \<^verbatim>\<open>except\<close> branch (which returns 0.0) has no counterpart here.
\<close>

definition estimate_roi :: "metrics_dict \<Rightarrow> strategy_dict \<Rightarrow> real" where
  "estimate_roi m s =
     (let base_roi = dict_get (expected_roi s) 0;
          growth_rate = dict_get (growth_rate m) 0;
          conversion_rate = dict_get (conversion_rate m) 0;
          base_roi = (if growth_rate > 50 then base_roi * 1.3 else base_roi);
          base_roi = (if conversion_rate > 5 then base_roi * 1.2 else base_roi);
          risk_adjustment = (if risk_level s = Some ''high'' then 0.8
                             else if risk_level s = Some ''low'' then 1.1
                             else 1.0)
      in max 0.0 (min 500.0 (base_roi * risk_adjustment)))"

subsection \<open>The scorer\<close>

text \<open>The loop over the products, which appends the candidates that pass the gate.\<close>

fun collect_candidates :: "engine \<Rightarrow> product_dict list \<Rightarrow> candidate_dict list" where
  "collect_candidates e [] = []"
| "collect_candidates e (p # ps) =
     (let m = calculate_product_metrics p;
          score = calculate_opportunity_score e m
      in if score \<ge> 0.8 then
           (let s = generate_scaling_strategy e p m
            in \<lparr>product = p, metrics = m, opportunity_score = score,
                scaling_strategy = s, estimated_roi = estimate_roi m s\<rparr>
               # collect_candidates e ps)
         else collect_candidates e ps)"

definition rank_key :: "candidate_dict \<Rightarrow> real" where
  "rank_key x = opportunity_score x * estimated_roi x"

text \<open>
  \<^verbatim>\<open>list.sort(key=k, reverse=True)\<close> is stable: descending by key, equal keys in
  their original order. That is the stable ascending sort by the negated key.
\<close>

definition sort_reverse :: "('a \<Rightarrow> real) \<Rightarrow> 'a list \<Rightarrow> 'a list" where
  "sort_reverse k xs = sort_key (\<lambda>x. - k x) xs"

text \<open>
  \<^verbatim>\<open>analyze_scaling_opportunities\<close> reads the engine and assigns nothing to it;
  the model returns the engine next to the ranking, to state that. Each helper
  catches its own exceptions, so the outer \<^verbatim>\<open>except\<close> branch is not reached.
\<close>

definition analyze_scaling_opportunities ::
  "engine \<Rightarrow> product_dict list \<Rightarrow> candidate_dict list \<times> engine" where
  "analyze_scaling_opportunities e products =
     (let scaling_candidates = collect_candidates e products;
          scaling_candidates = sort_reverse rank_key scaling_candidates
      in (py_slice scaling_candidates None (Some (max_concurrent_scales (scaling_thresholds e))),
          e))"

subsection \<open>The executor\<close>

definition failed_result :: "string \<Rightarrow> action_result" where
  "failed_result t = \<lparr>investment = 0, expected_return = 0, action_type = Some t,
                      status = ''failed''\<rparr>"

text \<open>
  The handlers. Each reads its keys inside a \<^verbatim>\<open>try\<close> block whose \<^verbatim>\<open>except\<close>
  branch returns the failed result. The \<^verbatim>\<open>await asyncio.sleep(0.1)\<close> of a handler
  is where the task may still be pending at the deadline (see below).
\<close>

definition increase_ad_spend :: "product_dict \<Rightarrow> action_dict \<Rightarrow> action_result" where
  "increase_ad_spend p a =
     (case dict_item (budget a) of
        Inl e \<Rightarrow> failed_result ''ad_spend_increase''
      | Inr b \<Rightarrow>
     (case dict_item (expected_increase a) of
        Inl e \<Rightarrow> failed_result ''ad_spend_increase''
      | Inr x \<Rightarrow> \<lparr>investment = b, expected_return = x,
                  action_type = Some ''ad_spend_increase'', status = ''success''\<rparr>))"

definition expand_audience :: "product_dict \<Rightarrow> action_dict \<Rightarrow> action_result" where
  "expand_audience p a =
     (case dict_item (budget a) of
        Inl e \<Rightarrow> failed_result ''audience_expansion''
      | Inr b \<Rightarrow>
     (case dict_item (expected_increase a) of
        Inl e \<Rightarrow> failed_result ''audience_expansion''
      | Inr x \<Rightarrow> \<lparr>investment = b, expected_return = x,
                  action_type = Some ''audience_expansion'', status = ''success''\<rparr>))"

definition expand_platforms :: "product_dict \<Rightarrow> action_dict \<Rightarrow> action_result" where
  "expand_platforms p a =
     (case dict_item (budget a) of
        Inl e \<Rightarrow> failed_result ''platform_expansion''
      | Inr b \<Rightarrow>
     (case dict_item (expected_increase a) of
        Inl e \<Rightarrow> failed_result ''platform_expansion''
      | Inr x \<Rightarrow> \<lparr>investment = b, expected_return = x,
                  action_type = Some ''platform_expansion'', status = ''success''\<rparr>))"

definition optimize_pricing :: "product_dict \<Rightarrow> action_dict \<Rightarrow> action_result" where
  "optimize_pricing p a =
     (let b = dict_get (budget a) 0
      in case dict_item (expected_increase a) of
           Inl e \<Rightarrow> failed_result ''price_optimization''
         | Inr x \<Rightarrow> \<lparr>investment = b, expected_return = x,
                     action_type = Some ''price_optimization'', status = ''success''\<rparr>)"

text \<open>
  \<^verbatim>\<open>_execute_single_action\<close>: a KeyError of \<^verbatim>\<open>action['type']\<close> is logged and raised
  again, so it is the outcome of the task (\<open>Inl\<close>).
\<close>

definition execute_single_action :: "product_dict \<Rightarrow> action_dict \<Rightarrow> py_error + action_result" where
  "execute_single_action p a =
     (case dict_item (atype a) of
        Inl e \<Rightarrow> Inl e
      | Inr kind \<Rightarrow>
          if kind = ''ad_spend_increase'' then Inr (increase_ad_spend p a)
          else if kind = ''audience_expansion'' then Inr (expand_audience p a)
          else if kind = ''platform_expansion'' then Inr (expand_platforms p a)
          else if kind = ''price_optimization'' then Inr (optimize_pricing p a)
          else Inr \<lparr>investment = 0, expected_return = 0, action_type = Some kind,
                    status = ''unknown_action''\<rparr>)"

text \<open>One task per action of every candidate, in the order of the two nested loops.\<close>

definition batch_units :: "candidate_dict list \<Rightarrow> (product_dict \<times> action_dict) list" where
  "batch_units scaling_candidates =
     concat (map (\<lambda>candidate. map (\<lambda>action. (product candidate, action))
                                   (actions (scaling_strategy candidate)))
                 scaling_candidates)"

definition timeout_result :: action_result where
  "timeout_result = \<lparr>investment = 0, expected_return = 0, action_type = None,
                     status = ''timeout''\<rparr>"

text \<open>
  \<^verbatim>\<open>asyncio.wait_for(asyncio.gather(...), timeout=30.0)\<close>, the gather being over all tasks
  with \<^verbatim>\<open>return_exceptions=True\<close>.
  Time is not modelled; what the clock decides is an input: \<open>resolved i\<close> tells whether
  task \<open>i\<close> has finished when the deadline fires. The gather finishes when every task
  has (its value is then the list of the outcomes, an exception being an outcome);
  otherwise \<open>wait_for\<close> raises TimeoutError and the handler of the source builds the
  list \<^verbatim>\<open>[{'investment': 0, 'expected_return': 0, 'status': 'timeout'}] * len(tasks)\<close>.
\<close>

definition gather_outcomes ::
  "(product_dict \<times> action_dict) list \<Rightarrow> (py_error + action_result) list" where
  "gather_outcomes units = map (\<lambda>(p, a). execute_single_action p a) units"

definition wait_for_batch ::
  "(nat \<Rightarrow> bool) \<Rightarrow> (product_dict \<times> action_dict) list \<Rightarrow> (py_error + action_result) list" where
  "wait_for_batch resolved units =
     (if list_all resolved [0..<length units] then gather_outcomes units
      else replicate (length units) (Inr timeout_result))"

text \<open>The loop over the outcomes: an exception counts as failed, anything else as executed.\<close>

fun process_results :: "(py_error + action_result) list \<Rightarrow> report_dict \<Rightarrow> report_dict" where
  "process_results [] results = results"
| "process_results (Inl exn # rest) results =
     process_results rest (results\<lparr>failed_actions := failed_actions results + 1\<rparr>)"
| "process_results (Inr result # rest) results =
     process_results rest
       (results\<lparr>executed_actions := executed_actions results + 1,
                total_investment := total_investment results + investment result,
                total_expected_return := total_expected_return results + expected_return result\<rparr>)"

definition initial_report :: report_dict where
  "initial_report = \<lparr>executed_actions = 0, total_investment = 0, total_expected_return = 0,
                     failed_actions = 0, success_rate = 0, execution_time = 0\<rparr>"

text \<open>
  \<^verbatim>\<open>execute_scaling_actions\<close>. The two readings of the clock are inputs: \<open>elapsed\<close>
  (seconds between start and end) and \<open>now\<close> (the time stamp written to the
  performance metrics). The engine is returned with its updated counters. Nothing in
  the \<^verbatim>\<open>try\<close> block raises on candidates of the types above, so the outer
  \<^verbatim>\<open>except\<close> branch (a zeroed report with one failed action) has no counterpart.
\<close>

definition execute_scaling_actions ::
  "engine \<Rightarrow> candidate_dict list \<Rightarrow> (nat \<Rightarrow> bool) \<Rightarrow> real \<Rightarrow> string \<Rightarrow> report_dict \<times> engine" where
  "execute_scaling_actions e scaling_candidates resolved elapsed now =
     (let tasks = batch_units scaling_candidates;
          action_results = wait_for_batch resolved tasks;
          results = process_results action_results initial_report;
          total_actions = length action_results;
          results = (if total_actions > 0
                     then results\<lparr>success_rate :=
                            real (executed_actions results) / real total_actions * 100\<rparr>
                     else results);
          results = results\<lparr>execution_time := elapsed\<rparr>;
          pm = performance_metrics e;
          pm = pm\<lparr>scales_executed := scales_executed pm + executed_actions results,
                  last_success_rate := success_rate results,
                  total_revenue_increase := total_revenue_increase pm + total_expected_return results,
                  last_optimization := now\<rparr>
      in (results, e\<lparr>performance_metrics := pm\<rparr>))"

subsection \<open>Vocabulary of the properties and concrete inputs\<close>

definition is_kind :: "string \<Rightarrow> action_dict \<Rightarrow> bool" where
  "is_kind k a = (atype a = Some k)"

text \<open>The action kinds that \<^verbatim>\<open>_execute_single_action\<close> routes to a handler.\<close>

definition known_kinds :: "string list" where
  "known_kinds = [''ad_spend_increase'', ''audience_expansion'', ''platform_expansion'',
                  ''price_optimization'']"

definition unknown_result :: "string \<Rightarrow> action_result" where
  "unknown_result k = \<lparr>investment = 0, expected_return = 0, action_type = Some k,
                       status = ''unknown_action''\<rparr>"

text \<open>The run in which every task has finished when the deadline fires.\<close>

definition all_resolved :: "nat \<Rightarrow> bool" where
  "all_resolved i = True"

text \<open>The two products of \<^verbatim>\<open>test_scaling_engine\<close>.\<close>

definition sample_product_1 :: product_dict where
  "sample_product_1 =
     \<lparr>name = Some ''AI Writing Tool'', daily_revenue = Some 750,
      historical_data = Some [500, 550, 600, 650, 700, 750, 800, 850, 900, 950, 1000],
      p_conversion_rate = Some 3.2, p_traffic_volume = Some 1000,
      p_profit_margin = Some 0.8, cac = None, ltv = None\<rparr>"

definition sample_product_2 :: product_dict where
  "sample_product_2 =
     \<lparr>name = Some ''Digital Course'', daily_revenue = Some 1200,
      historical_data = Some [800, 850, 900, 950, 1000, 1050, 1100, 1150, 1200, 1250, 1300],
      p_conversion_rate = Some 2.8, p_traffic_volume = Some 1500,
      p_profit_margin = Some 0.9, cac = None, ltv = None\<rparr>"

text \<open>
  An action of a kind without handler (the engine has a multiplier of that name) and
  an ad-spend action.
\<close>

definition content_variation_action :: action_dict where
  "content_variation_action = \<lparr>atype = Some ''content_variation'', multiplier = Some 1.8,
     budget = Some 100, expected_increase = Some 200\<rparr>"

definition ad_spend_action :: action_dict where
  "ad_spend_action = \<lparr>atype = Some ''ad_spend_increase'', multiplier = Some 1.5,
     budget = Some 225, expected_increase = Some 375\<rparr>"

text \<open>Metrics with and without the two boosts, and a strategy of base ROI 180.\<close>

definition boosted_metrics :: metrics_dict where
  "boosted_metrics =
     \<lparr>current_revenue = Some 750, growth_rate = Some 60, conversion_rate = Some 6,
      traffic_volume = Some 1000, profit_margin = Some 0.8,
      customer_acquisition_cost = Some 50, lifetime_value = Some 200\<rparr>"

definition plain_metrics :: metrics_dict where
  "plain_metrics =
     \<lparr>current_revenue = Some 750, growth_rate = Some 10, conversion_rate = Some 1,
      traffic_volume = Some 1000, profit_margin = Some 0.8,
      customer_acquisition_cost = Some 50, lifetime_value = Some 200\<rparr>"

definition medium_strategy :: strategy_dict where
  "medium_strategy =
     \<lparr>actions = [ad_spend_action], budget_allocation = Some [], timeline = ''immediate'',
      expected_roi = Some 180, risk_level = Some ''medium''\<rparr>"

text \<open>
  The outcomes of a batch that are values (dictionaries), and those that are
  exceptions, as the loop over the outcomes tells them apart with \<^verbatim>\<open>isinstance\<close>.
\<close>

fun values_of :: "(py_error + action_result) list \<Rightarrow> action_result list" where
  "values_of [] = []"
| "values_of (Inl e # rs) = values_of rs"
| "values_of (Inr r # rs) = r # values_of rs"

fun exceptions_of :: "(py_error + action_result) list \<Rightarrow> py_error list" where
  "exceptions_of [] = []"
| "exceptions_of (Inl e # rs) = e # exceptions_of rs"
| "exceptions_of (Inr r # rs) = exceptions_of rs"

definition is_success :: "action_result \<Rightarrow> bool" where
  "is_success r = (status r = ''success'')"

definition successes :: "(py_error + action_result) list \<Rightarrow> action_result list" where
  "successes rs = filter is_success (values_of rs)"

text \<open>
  The aggregation in the words of the specification: executed counts the results of
  status success, failed counts all other units, the totals are sums over the results
  of status success, the success rate is executed over the number of units times 100.
\<close>

definition spec_aggregation :: "(py_error + action_result) list \<Rightarrow> report_dict \<Rightarrow> bool" where
  "spec_aggregation rs report =
     (executed_actions report = length (successes rs)
      \<and> failed_actions report = length rs - length (successes rs)
      \<and> total_investment report = sum_list (map investment (successes rs))
      \<and> total_expected_return report = sum_list (map expected_return (successes rs))
      \<and> success_rate report =
          (if length rs = 0 then 0
           else real (executed_actions report) / real (length rs) * 100))"

text \<open>A product that passes the confidence gate (score 0.98 under the default engine).\<close>

definition strong_product :: product_dict where
  "strong_product =
     \<lparr>name = Some ''Strong'', daily_revenue = Some 1000,
      historical_data = Some [100, 100, 100, 100, 100, 100, 100,
                              300, 300, 300, 300, 300, 300, 300],
      p_conversion_rate = Some 10, p_traffic_volume = Some 1000,
      p_profit_margin = Some 1, cac = None, ltv = None\<rparr>"

definition price_action :: action_dict where
  "price_action = \<lparr>atype = Some ''price_optimization'', multiplier = Some 1.3,
     budget = Some 75, expected_increase = Some 225\<rparr>"

text \<open>
  Two candidates as \<^verbatim>\<open>execute_scaling_actions\<close> may receive them: one whose only
  action has no handler, one with an ad-spend and a price action.
\<close>

definition unknown_candidate :: candidate_dict where
  "unknown_candidate =
     \<lparr>product = sample_product_1, metrics = plain_metrics, opportunity_score = 0.9,
      scaling_strategy = \<lparr>actions = [content_variation_action], budget_allocation = Some [],
                          timeline = ''immediate'', expected_roi = Some 100,
                          risk_level = Some ''medium''\<rparr>,
      estimated_roi = 100\<rparr>"

definition two_action_candidate :: candidate_dict where
  "two_action_candidate =
     \<lparr>product = sample_product_1, metrics = plain_metrics, opportunity_score = 0.9,
      scaling_strategy = \<lparr>actions = [ad_spend_action, price_action], budget_allocation = Some [],
                          timeline = ''immediate'', expected_roi = Some 100,
                          risk_level = Some ''medium''\<rparr>,
      estimated_roi = 100\<rparr>"

text \<open>The run in which task 1 is still pending at the deadline and every other task is done.\<close>

definition second_pending :: "nat \<Rightarrow> bool" where
  "second_pending i = (i \<noteq> 1)"

text \<open>
  The growth rate in the words of the specification: the mean of the last 7 samples
  minus the mean of the up to 7 samples before them, over the latter mean, times 100;
  the constant 25 when the latter mean is zero.
\<close>

definition mean :: "real list \<Rightarrow> real" where
  "mean xs = sum_list xs / real (length xs)"

definition last_7 :: "'a list \<Rightarrow> 'a list" where
  "last_7 xs = drop (length xs - 7) xs"

definition preceding_7 :: "'a list \<Rightarrow> 'a list" where
  "preceding_7 xs = drop (length xs - 14) (take (length xs - 7) xs)"

definition spec_growth_rate :: "real list \<Rightarrow> real" where
  "spec_growth_rate h =
     (if mean (preceding_7 h) = 0 then 25
      else (mean (last_7 h) - mean (preceding_7 h)) / mean (preceding_7 h) * 100)"

text \<open>The first sample product with a history of two samples, and with a negative sample.\<close>

definition two_sample_product :: product_dict where
  "two_sample_product = sample_product_1\<lparr>historical_data := Some [100, 200]\<rparr>"

definition negative_history_product :: product_dict where
  "negative_history_product =
     sample_product_1\<lparr>historical_data := Some [- 10, 1, 1, 1, 1, 1, 1, 1]\<rparr>"

text \<open>The gate of the scorer, as a predicate on products.\<close>

definition passes_gate :: "engine \<Rightarrow> product_dict \<Rightarrow> bool" where
  "passes_gate e p = (0.8 \<le> calculate_opportunity_score e (calculate_product_metrics p))"

text \<open>The default engine with \<^verbatim>\<open>MAX_CONCURRENT_SCALES=1\<close>, and a second strong product.\<close>

definition engine_cap_1 :: engine where
  "engine_cap_1 = (default_engine [])\<lparr>scaling_thresholds :=
      (scaling_thresholds (default_engine []))\<lparr>max_concurrent_scales := 1\<rparr>\<rparr>"

definition stronger_product :: product_dict where
  "stronger_product = strong_product\<lparr>name := Some ''Stronger'', daily_revenue := Some 5000\<rparr>"

section \<open>Properties\<close>

subsection \<open>Auxiliary facts\<close>

lemma clamp_bounds:
  "0 \<le> max 0 (min c x) \<and> (0 \<le> c \<longrightarrow> max (0::real) (min c x) \<le> c)"
  by (simp add: max_def min_def)

lemma clamp_mono: "x \<le> y \<Longrightarrow> max 0 (min c x) \<le> max (0::real) (min c y)"
  by (simp add: max_def min_def)

lemma score_try_shape:
  "calculate_opportunity_score_try e m = Inl ZeroDivisionError
   \<or> (\<exists>x. calculate_opportunity_score_try e m = Inr (max 0 (min 1 x)))"
  unfolding calculate_opportunity_score_try_def py_truediv_def Let_def
  by (cases "revenue_threshold (scaling_thresholds e) = 0") auto

lemma score_range:
  "0 \<le> calculate_opportunity_score e m \<and> calculate_opportunity_score e m \<le> 1"
  using score_try_shape [of e m] clamp_bounds [of 1]
  by (auto simp: calculate_opportunity_score_def)

lemma roi_range: "0 \<le> estimate_roi m s \<and> estimate_roi m s \<le> 500"
  by (simp add: estimate_roi_def Let_def)

lemma score_zero_threshold:
  "calculate_opportunity_score
      (e\<lparr>scaling_thresholds := (scaling_thresholds e)\<lparr>revenue_threshold := 0\<rparr>\<rparr>) m = 0"
  by (simp add: calculate_opportunity_score_def calculate_opportunity_score_try_def
        py_truediv_def)

lemma score_zero_cac:
  "calculate_opportunity_score e (m\<lparr>customer_acquisition_cost := Some 0\<rparr>)
   = calculate_opportunity_score e (m\<lparr>lifetime_value := Some 0\<rparr>)"
  by (simp add: calculate_opportunity_score_def calculate_opportunity_score_try_def
        py_truediv_def dict_get_def Let_def)

lemma roi_zero_budget:
  "expected_roi (generate_scaling_strategy e p (m\<lparr>current_revenue := Some 0\<rparr>)) = Some 0"
  by (simp add: generate_scaling_strategy_def generate_scaling_strategy_try_def
        strategy_actions_def dict_get_def dict_item_def Let_def strategy_on_error_def min_def)

lemma estimate_roi_unfold:
  "estimate_roi m s =
     max 0 (min 500 (dict_get (expected_roi s) 0
        * (if dict_get (growth_rate m) 0 > 50 then 1.3 else 1)
        * (if dict_get (conversion_rate m) 0 > 5 then 1.2 else 1)
        * (if risk_level s = Some ''high'' then 0.8
           else if risk_level s = Some ''low'' then 1.1 else 1)))"
  by (simp add: estimate_roi_def Let_def)

lemma wait_all_resolved: "wait_for_batch all_resolved units = gather_outcomes units"
  by (simp add: wait_for_batch_def all_resolved_def list_all_iff)

lemma exec_unknown:
  assumes "atype a = Some k" and "k \<notin> set known_kinds"
  shows "execute_single_action p a = Inr (unknown_result k)"
  using assms
  by (simp add: execute_single_action_def dict_item_def known_kinds_def unknown_result_def)

lemma score_pm:
  "calculate_opportunity_score (e\<lparr>performance_metrics := pm\<rparr>) m
     = calculate_opportunity_score e m"
  by (simp add: calculate_opportunity_score_def calculate_opportunity_score_try_def)

lemma actions_pm:
  "strategy_actions (e\<lparr>performance_metrics := pm\<rparr>) m = strategy_actions e m"
  by (simp add: strategy_actions_def Let_def)

lemma strategy_pm:
  "generate_scaling_strategy (e\<lparr>performance_metrics := pm\<rparr>) p m
     = generate_scaling_strategy e p m"
  by (simp add: generate_scaling_strategy_def generate_scaling_strategy_try_def actions_pm)

lemma collect_pm:
  "collect_candidates (e\<lparr>performance_metrics := pm\<rparr>) ps = collect_candidates e ps"
  by (induction ps) (simp_all add: score_pm strategy_pm Let_def)

lemma process_results_fields:
  "executed_actions (process_results rs acc) = executed_actions acc + length (values_of rs)
   \<and> failed_actions (process_results rs acc) = failed_actions acc + length (exceptions_of rs)
   \<and> total_investment (process_results rs acc)
       = total_investment acc + sum_list (map investment (values_of rs))
   \<and> total_expected_return (process_results rs acc)
       = total_expected_return acc + sum_list (map expected_return (values_of rs))
   \<and> success_rate (process_results rs acc) = success_rate acc
   \<and> execution_time (process_results rs acc) = execution_time acc"
  by (induction rs acc rule: process_results.induct) simp_all

lemma handler_results:
  "is_success (increase_ad_spend p a)
     \<or> (investment (increase_ad_spend p a) = 0 \<and> expected_return (increase_ad_spend p a) = 0)"
  "is_success (expand_audience p a)
     \<or> (investment (expand_audience p a) = 0 \<and> expected_return (expand_audience p a) = 0)"
  "is_success (expand_platforms p a)
     \<or> (investment (expand_platforms p a) = 0 \<and> expected_return (expand_platforms p a) = 0)"
  "is_success (optimize_pricing p a)
     \<or> (investment (optimize_pricing p a) = 0 \<and> expected_return (optimize_pricing p a) = 0)"
  by (simp_all add: increase_ad_spend_def expand_audience_def expand_platforms_def
        optimize_pricing_def failed_result_def is_success_def dict_item_def Let_def
        split: option.split)

lemma exec_result:
  assumes "execute_single_action p a = Inr r"
  shows "is_success r \<or> (investment r = 0 \<and> expected_return r = 0)"
proof (cases "atype a")
  case None
  with assms show ?thesis by (simp add: execute_single_action_def dict_item_def)
next
  case (Some k)
  with assms handler_results [of p a] show ?thesis
    by (auto simp: execute_single_action_def dict_item_def split: if_splits)
qed

lemma values_of_mem: "r \<in> set (values_of rs) \<longleftrightarrow> Inr r \<in> set rs"
  by (induction rs rule: values_of.induct) auto

lemma batch_non_success_zero:
  assumes "r \<in> set (values_of (wait_for_batch resolved units))"
  shows "is_success r \<or> (investment r = 0 \<and> expected_return r = 0)"
proof (cases "list_all resolved [0..<length units]")
  case True
  with assms have "Inr r \<in> set (gather_outcomes units)"
    by (simp add: wait_for_batch_def values_of_mem)
  then obtain p a where "execute_single_action p a = Inr r"
    by (auto simp: gather_outcomes_def)
  then show ?thesis by (rule exec_result)
next
  case False
  with assms have "r = timeout_result"
    by (auto simp: wait_for_batch_def values_of_mem)
  then show ?thesis by (simp add: timeout_result_def)
qed

lemma sum_list_filter_zero:
  fixes f :: "'a \<Rightarrow> real"
  assumes "\<And>x. x \<in> set xs \<Longrightarrow> P x \<or> f x = 0"
  shows "sum_list (map f (filter P xs)) = sum_list (map f xs)"
  using assms by (induction xs) auto

lemma report_fields:
  fixes e cands resolved elapsed now
  defines "rs \<equiv> wait_for_batch resolved (batch_units cands)"
  defines "report \<equiv> fst (execute_scaling_actions e cands resolved elapsed now)"
  shows "executed_actions report = length (values_of rs)"
    and "failed_actions report = length (exceptions_of rs)"
    and "total_investment report = sum_list (map investment (values_of rs))"
    and "total_expected_return report = sum_list (map expected_return (values_of rs))"
    and "success_rate report =
          (if length rs = 0 then 0 else real (length (values_of rs)) / real (length rs) * 100)"
    and "execution_time report = elapsed"
  unfolding rs_def report_def
  by (simp_all add: execute_scaling_actions_def Let_def process_results_fields initial_report_def)

lemma unknown_batch:
  "wait_for_batch all_resolved (batch_units [unknown_candidate])
     = [Inr (unknown_result ''content_variation'')]"
  by (simp add: wait_all_resolved gather_outcomes_def batch_units_def unknown_candidate_def
        execute_single_action_def content_variation_action_def dict_item_def unknown_result_def)

lemma timeout_batch:
  assumes "i < length units" and "\<not> resolved i"
  shows "wait_for_batch resolved units = replicate (length units) (Inr timeout_result)"
proof -
  have "\<not> list_all resolved [0..<length units]"
    using assms by (auto simp: list_all_iff)
  then show ?thesis by (simp add: wait_for_batch_def)
qed

lemma values_of_replicate: "values_of (replicate n (Inr r)) = replicate n r"
  by (induction n) simp_all

lemma two_units:
  "batch_units [two_action_candidate]
     = [(sample_product_1, ad_spend_action), (sample_product_1, price_action)]"
  by (simp add: batch_units_def two_action_candidate_def)

lemma collect_candidates_sound:
  "c \<in> set (collect_candidates e ps) \<Longrightarrow>
     product c \<in> set ps
     \<and> opportunity_score c = calculate_opportunity_score e (calculate_product_metrics (product c))
     \<and> 0.8 \<le> opportunity_score c"
  by (induction ps) (auto simp: Let_def split: if_splits)

lemma set_sort_reverse: "set (sort_reverse k xs) = set xs"
  by (simp add: sort_reverse_def)

lemma set_py_slice: "set (py_slice xs lo hi) \<subseteq> set xs"
proof -
  have "set (take n (drop a xs)) \<subseteq> set xs" for n a
    using set_take_subset [of n "drop a xs"] set_drop_subset [of a xs] by blast
  then show ?thesis by (simp add: py_slice_def Let_def)
qed

lemma analyze_subset:
  "set (fst (analyze_scaling_opportunities e ps)) \<subseteq> set (collect_candidates e ps)"
  using set_py_slice [of "sort_reverse rank_key (collect_candidates e ps)"]
  by (simp add: analyze_scaling_opportunities_def Let_def set_sort_reverse)

lemma py_slice_last7_14:
  "py_slice [a1,a2,a3,a4,a5,a6,a7,b1,b2,b3,b4,b5,b6,b7] (Some (- 7)) None
     = [b1,b2,b3,b4,b5,b6,b7]"
  by (simp add: py_slice_def slice_index_def)

lemma py_slice_older_14:
  "py_slice [a1,a2,a3,a4,a5,a6,a7,b1,b2,b3,b4,b5,b6,b7] (Some (- 14)) (Some (- 7))
     = [a1,a2,a3,a4,a5,a6,a7]"
  by (simp add: py_slice_def slice_index_def)

lemma py_slice_last7_11:
  "py_slice [a1,a2,a3,a4,b1,b2,b3,b4,b5,b6,b7] (Some (- 7)) None = [b1,b2,b3,b4,b5,b6,b7]"
  by (simp add: py_slice_def slice_index_def)

lemma py_slice_older_11:
  "py_slice [a1,a2,a3,a4,b1,b2,b3,b4,b5,b6,b7] (Some (- 14)) (Some (- 7)) = [a1,a2,a3,a4]"
  by (simp add: py_slice_def slice_index_def)

lemma strong_metrics:
  "calculate_product_metrics strong_product =
     \<lparr>current_revenue = Some 1000, growth_rate = Some 200, conversion_rate = Some 10,
      traffic_volume = Some 1000, profit_margin = Some 1,
      customer_acquisition_cost = Some 50, lifetime_value = Some 200\<rparr>"
  by (simp add: calculate_product_metrics_def calculate_product_metrics_try_def
        strong_product_def dict_get_def py_truediv_def py_slice_older_14 py_slice_last7_14)

lemma strong_score:
  "calculate_opportunity_score (default_engine now) (calculate_product_metrics strong_product)
     = 0.98"
  by (simp add: strong_metrics calculate_opportunity_score_def
        calculate_opportunity_score_try_def default_engine_def dict_get_def py_truediv_def)

lemma sample_1_metrics:
  "calculate_product_metrics sample_product_1 =
     \<lparr>current_revenue = Some 750, growth_rate = Some (1100 / 23), conversion_rate = Some 3.2,
      traffic_volume = Some 1000, profit_margin = Some 0.8,
      customer_acquisition_cost = Some 50, lifetime_value = Some 200\<rparr>"
  by (simp add: calculate_product_metrics_def calculate_product_metrics_try_def
        sample_product_1_def dict_get_def py_truediv_def py_slice_older_11 py_slice_last7_11)

lemma sample_1_score:
  "calculate_opportunity_score (default_engine now) (calculate_product_metrics sample_product_1)
     = 7861 / 11500"
  by (simp add: sample_1_metrics calculate_opportunity_score_def
        calculate_opportunity_score_try_def default_engine_def dict_get_def py_truediv_def)

lemma py_slice_singleton: "0 < k \<Longrightarrow> py_slice [x] None (Some k) = [x]"
  by (simp add: py_slice_def slice_index_def min_def)

lemma sort_reverse_singleton: "sort_reverse k [x] = [x]"
  by (simp add: sort_reverse_def)

lemma strong_collect:
  "collect_candidates (default_engine now) [sample_product_1, strong_product]
    = [\<lparr>product = strong_product, metrics = calculate_product_metrics strong_product,
         opportunity_score = 0.98,
         scaling_strategy = generate_scaling_strategy (default_engine now) strong_product
                              (calculate_product_metrics strong_product),
         estimated_roi = estimate_roi (calculate_product_metrics strong_product)
                           (generate_scaling_strategy (default_engine now) strong_product
                              (calculate_product_metrics strong_product))\<rparr>]"
  by (simp add: Let_def sample_1_score strong_score)

lemma py_slice_last_7: "py_slice h (Some (- 7)) None = last_7 h"
  by (simp add: py_slice_def slice_index_def last_7_def Let_def nat_diff_distrib' max_def)

lemma py_slice_preceding_7: "py_slice h (Some (- 14)) (Some (- 7)) = preceding_7 h"
  by (simp add: py_slice_def slice_index_def preceding_7_def Let_def drop_take
        nat_diff_distrib' max_def)

lemma length_last_7: "length (last_7 h) = min 7 (length h)"
  by (simp add: last_7_def)

lemma length_preceding_7: "length (preceding_7 h) = min 7 (length h - 7)"
  by (simp add: preceding_7_def)

lemma metrics_try_long:
  assumes "historical_data p = Some h" and "8 \<le> length h"
  shows "calculate_product_metrics_try p =
     Inr \<lparr>current_revenue = Some (dict_get (daily_revenue p) 0),
      growth_rate = Some (if mean (preceding_7 h) > 0
                          then (mean (last_7 h) - mean (preceding_7 h)) / mean (preceding_7 h) * 100
                          else 25),
      conversion_rate = Some (dict_get (p_conversion_rate p) 2.5),
      traffic_volume = Some (dict_get (p_traffic_volume p) 1000),
      profit_margin = Some (dict_get (p_profit_margin p) 0.7),
      customer_acquisition_cost = Some (dict_get (cac p) 50),
      lifetime_value = Some (dict_get (ltv p) 200)\<rparr>"
proof -
  have l: "length (last_7 h) = min 7 (length h)" "min 7 (length h) \<noteq> 0"
    using assms(2) by (simp_all add: length_last_7)
  have q: "min 7 (length (preceding_7 h)) = length (preceding_7 h)" "length (preceding_7 h) \<noteq> 0"
    using assms(2) by (simp_all add: length_preceding_7)
  have h: "dict_get (historical_data p) [] = h" "\<not> length h < 2"
    using assms by (simp_all add: dict_get_def)
  have r: "py_truediv (sum_list (last_7 h)) (real (min 7 (length h))) = Inr (mean (last_7 h))"
    using l by (simp add: py_truediv_def mean_def)
  have o: "py_truediv (sum_list (preceding_7 h)) (real (min 7 (length (preceding_7 h))))
             = Inr (mean (preceding_7 h))"
    using q by (simp add: py_truediv_def mean_def)
  have n: "(length h < 2) = False"
    using assms(2) by simp
  show ?thesis
    unfolding calculate_product_metrics_try_def Let_def h(1) n py_slice_last_7
      py_slice_preceding_7 r o
    by simp
qed

lemma sample_1_means:
  "mean (preceding_7 [500, 550, 600, 650, 700, 750, 800, 850, 900, 950, 1000]) = 575"
  "mean (last_7 [500, 550, 600, 650, 700, 750, 800, 850, 900, 950, 1000]) = 850"
  by (simp_all add: mean_def preceding_7_def last_7_def)

lemma collect_products:
  "map product (collect_candidates e ps) = filter (passes_gate e) ps"
  by (induction ps) (simp_all add: Let_def passes_gate_def)

lemma length_collect:
  "length (collect_candidates e ps) = length (filter (passes_gate e) ps)"
  using arg_cong [OF collect_products, of length e ps] by simp

lemma py_slice_take: "0 \<le> k \<Longrightarrow> py_slice xs None (Some k) = take (nat k) xs"
  by (simp add: py_slice_def slice_index_def Let_def min_def)

lemma sort_reverse_mset: "mset (sort_reverse k xs) = mset xs"
  by (simp add: sort_reverse_def)

lemma sort_reverse_sorted: "sorted_wrt (\<lambda>a b. k b \<le> k a) (sort_reverse k xs)"
proof -
  have "sorted (map (\<lambda>x. - k x) (sort_key (\<lambda>x. - k x) xs))"
    by (rule sorted_sort_key)
  then show ?thesis
    by (simp add: sort_reverse_def sorted_map)
qed

lemma length_sort_reverse: "length (sort_reverse k xs) = length xs"
  by (simp add: sort_reverse_def)

lemma top_of_sorted:
  assumes "sorted_wrt P ys"
  shows "sorted_wrt P (take n ys) \<and> (\<forall>a\<in>set (take n ys). \<forall>b\<in>set (drop n ys). P a b)"
proof -
  have "sorted_wrt P (take n ys @ drop n ys)" using assms by simp
  then show ?thesis unfolding sorted_wrt_append by blast
qed

lemma sample_2_metrics:
  "calculate_product_metrics sample_product_2 =
     \<lparr>current_revenue = Some 1200, growth_rate = Some (220 / 7), conversion_rate = Some 2.8,
      traffic_volume = Some 1500, profit_margin = Some 0.9,
      customer_acquisition_cost = Some 50, lifetime_value = Some 200\<rparr>"
  by (simp add: calculate_product_metrics_def calculate_product_metrics_try_def
        sample_product_2_def dict_get_def py_truediv_def py_slice_older_11 py_slice_last7_11)

lemma stronger_metrics:
  "calculate_product_metrics stronger_product =
     \<lparr>current_revenue = Some 5000, growth_rate = Some 200, conversion_rate = Some 10,
      traffic_volume = Some 1000, profit_margin = Some 1,
      customer_acquisition_cost = Some 50, lifetime_value = Some 200\<rparr>"
  by (simp add: calculate_product_metrics_def calculate_product_metrics_try_def stronger_product_def
        strong_product_def dict_get_def py_truediv_def py_slice_older_14 py_slice_last7_14)

lemma cap_1_fields:
  "revenue_threshold (scaling_thresholds engine_cap_1) = 500"
  "growth_rate_threshold (scaling_thresholds engine_cap_1) = 20"
  "conversion_threshold (scaling_thresholds engine_cap_1) = 2"
  "max_concurrent_scales (scaling_thresholds engine_cap_1) = 1"
  "max_ad_spend (config engine_cap_1) = 1000"
  by (simp_all add: engine_cap_1_def default_engine_def)

lemma cap_1_gate:
  "\<not> passes_gate engine_cap_1 sample_product_1"
  "\<not> passes_gate engine_cap_1 sample_product_2"
  "passes_gate engine_cap_1 strong_product"
  "passes_gate engine_cap_1 stronger_product"
  by (simp_all add: passes_gate_def calculate_opportunity_score_def
        calculate_opportunity_score_try_def cap_1_fields sample_1_metrics sample_2_metrics
        strong_metrics stronger_metrics dict_get_def py_truediv_def)

lemma cap_1_roi:
  "estimate_roi (calculate_product_metrics strong_product)
     (generate_scaling_strategy engine_cap_1 strong_product
        (calculate_product_metrics strong_product)) = 1404 / 5"
  "estimate_roi (calculate_product_metrics stronger_product)
     (generate_scaling_strategy engine_cap_1 stronger_product
        (calculate_product_metrics stronger_product)) = 2964 / 9"
  by (simp_all add: estimate_roi_def generate_scaling_strategy_def
        generate_scaling_strategy_try_def strategy_actions_def cap_1_fields strong_metrics
        stronger_metrics dict_get_def dict_item_def Let_def)

lemma collect_nil_iff: "collect_candidates e ps = [] \<longleftrightarrow> filter (passes_gate e) ps = []"
  using collect_products [of e ps] by (metis map_is_Nil_conv)

lemma cap_1_products:
  "map product (fst (analyze_scaling_opportunities engine_cap_1
                       [strong_product, stronger_product])) = [stronger_product]"
proof -
  have s: "calculate_opportunity_score engine_cap_1 (calculate_product_metrics strong_product) = 0.98"
    "calculate_opportunity_score engine_cap_1 (calculate_product_metrics stronger_product) = 0.98"
    by (simp_all add: calculate_opportunity_score_def
        calculate_opportunity_score_try_def cap_1_fields
        strong_metrics stronger_metrics dict_get_def py_truediv_def)
  show ?thesis
    by (simp add: analyze_scaling_opportunities_def Let_def s cap_1_roi sort_reverse_def
          rank_key_def py_slice_def slice_index_def cap_1_fields)
qed

subsection \<open>Clamping of score and ROI\<close>

text \<open>
  C5. For every metrics dictionary, strategy and engine configuration the opportunity
  score lies in [0,1] and the estimated ROI in [0,500]; both functions are total, the
  division by a zero revenue threshold being caught. The degenerate denominators give
  the fixed fallbacks: a revenue threshold of zero gives the score 0, a customer
  acquisition cost of zero contributes the efficiency 0 (as a lifetime value of zero
  does), and a strategy without budget (revenue zero) has the expected ROI 0.
\<close>

theorem C5_score_and_roi_clamped:
  "0 \<le> calculate_opportunity_score e m \<and> calculate_opportunity_score e m \<le> 1
   \<and> 0 \<le> estimate_roi m s \<and> estimate_roi m s \<le> 500
   \<and> calculate_opportunity_score
        (e\<lparr>scaling_thresholds := (scaling_thresholds e)\<lparr>revenue_threshold := 0\<rparr>\<rparr>) m = 0
   \<and> calculate_opportunity_score e (m\<lparr>customer_acquisition_cost := Some 0\<rparr>)
       = calculate_opportunity_score e (m\<lparr>lifetime_value := Some 0\<rparr>)
   \<and> expected_roi (generate_scaling_strategy e p (m\<lparr>current_revenue := Some 0\<rparr>)) = Some 0"
  using score_range [of e m] roi_range [of m s] score_zero_threshold [of e m]
    score_zero_cac [of e m] roi_zero_budget [of e p m]
  by blast

subsection \<open>Monotonicity of the boosts\<close>

text \<open>
  C7. For a strategy with a non-negative base ROI, the estimated ROI of metrics with
  growth rate above 50 and conversion rate above 5 is at least the estimated ROI of
  metrics for which both conditions are false, the strategy being the same.
\<close>

theorem C7_boost_monotone:
  assumes "0 \<le> dict_get (expected_roi s) 0"
    and "dict_get (growth_rate m1) 0 > 50" and "dict_get (conversion_rate m1) 0 > 5"
    and "\<not> dict_get (growth_rate m2) 0 > 50" and "\<not> dict_get (conversion_rate m2) 0 > 5"
  shows "estimate_roi m2 s \<le> estimate_roi m1 s"
proof -
  define b where "b = dict_get (expected_roi s) 0"
  define r :: real where "r = (if risk_level s = Some ''high'' then 0.8
           else if risk_level s = Some ''low'' then 1.1 else 1)"
  have r: "0 \<le> r" by (simp add: r_def)
  have b: "0 \<le> b" using assms(1) by (simp add: b_def)
  have "b * r * 1 \<le> b * r * (156 / 100)"
    by (rule mult_left_mono) (use b r in auto)
  then have le: "b * 1 * 1 * r \<le> b * 1.3 * 1.2 * r"
    by (simp add: algebra_simps)
  have "estimate_roi m2 s = max 0 (min 500 (b * 1 * 1 * r))"
    using assms(4,5) unfolding estimate_roi_unfold b_def r_def by simp
  moreover have "estimate_roi m1 s = max 0 (min 500 (b * 1.3 * 1.2 * r))"
    using assms(2,3) unfolding estimate_roi_unfold b_def r_def by simp
  ultimately show ?thesis using clamp_mono[OF le] by simp
qed

theorem C7_boost_monotone_witness:
  "0 \<le> dict_get (expected_roi medium_strategy) 0
   \<and> dict_get (growth_rate boosted_metrics) 0 > 50
   \<and> dict_get (conversion_rate boosted_metrics) 0 > 5
   \<and> \<not> dict_get (growth_rate plain_metrics) 0 > 50
   \<and> \<not> dict_get (conversion_rate plain_metrics) 0 > 5
   \<and> estimate_roi plain_metrics medium_strategy \<le> estimate_roi boosted_metrics medium_strategy
   \<and> estimate_roi plain_metrics medium_strategy = 180"
proof -
  have h1: "0 \<le> dict_get (expected_roi medium_strategy) 0"
    by (simp add: medium_strategy_def dict_get_def)
  have h2: "dict_get (growth_rate boosted_metrics) 0 > 50"
    and h3: "dict_get (conversion_rate boosted_metrics) 0 > 5"
    by (simp_all add: boosted_metrics_def dict_get_def)
  have h4: "\<not> dict_get (growth_rate plain_metrics) 0 > 50"
    and h5: "\<not> dict_get (conversion_rate plain_metrics) 0 > 5"
    by (simp_all add: plain_metrics_def dict_get_def)
  have v: "estimate_roi plain_metrics medium_strategy = 180"
    by (simp add: estimate_roi_unfold plain_metrics_def medium_strategy_def dict_get_def)
  show ?thesis
    using C7_boost_monotone [OF h1 h2 h3 h4 h5] h1 h2 h3 h4 h5 v by simp
qed

subsection \<open>Unknown action kinds\<close>

text \<open>
  C8. A unit whose action has a kind without handler resolves to the result with
  status \<^verbatim>\<open>unknown_action\<close>, investment 0 and expected return 0 (a value, not an
  exception), and in a batch that completes the outcomes of the units before and
  after it are what they are without it.
\<close>

theorem C8_unknown_action:
  assumes "atype a = Some k" and "k \<notin> set known_kinds"
  shows "execute_single_action p a = Inr (unknown_result k)
       \<and> status (unknown_result k) = ''unknown_action''
       \<and> investment (unknown_result k) = 0 \<and> expected_return (unknown_result k) = 0
       \<and> wait_for_batch all_resolved (before @ (p, a) # after)
          = wait_for_batch all_resolved before @ Inr (unknown_result k)
            # wait_for_batch all_resolved after"
  using exec_unknown [OF assms]
  by (simp add: wait_all_resolved gather_outcomes_def unknown_result_def)

theorem C8_unknown_action_witness:
  "atype content_variation_action = Some ''content_variation''
   \<and> ''content_variation'' \<notin> set known_kinds
   \<and> execute_single_action sample_product_1 content_variation_action
       = Inr (unknown_result ''content_variation'')
   \<and> wait_for_batch all_resolved
        ([(sample_product_1, ad_spend_action)] @ (sample_product_1, content_variation_action)
           # [(sample_product_2, ad_spend_action)])
      = [Inr \<lparr>investment = 225, expected_return = 375,
              action_type = Some ''ad_spend_increase'', status = ''success''\<rparr>,
         Inr (unknown_result ''content_variation''),
         Inr \<lparr>investment = 225, expected_return = 375,
              action_type = Some ''ad_spend_increase'', status = ''success''\<rparr>]"
proof -
  have h1: "atype content_variation_action = Some ''content_variation''"
    by (simp add: content_variation_action_def)
  have h2: "''content_variation'' \<notin> set known_kinds"
    by (simp add: known_kinds_def)
  have ad: "wait_for_batch all_resolved [(q, ad_spend_action)]
     = [Inr \<lparr>investment = 225, expected_return = 375,
              action_type = Some ''ad_spend_increase'', status = ''success''\<rparr>]" for q
    by (simp add: wait_all_resolved gather_outcomes_def execute_single_action_def
          ad_spend_action_def dict_item_def increase_ad_spend_def)
  show ?thesis
    using C8_unknown_action [OF h1 h2, of sample_product_1
                "[(sample_product_1, ad_spend_action)]"
                "[(sample_product_2, ad_spend_action)]"] h1 h2 ad
    by simp
qed

subsection \<open>The strategy of the two sample revenues\<close>

text \<open>
  C9. Under the default configuration (revenue threshold 500, maximal ad spend 1000)
  the strategy generated for metrics with current revenue 750, respectively 1200, has
  exactly one ad-spend action, with budget 225 and expected increase 375, respectively
  360 and 600, and exactly one price-optimization action (budget 75 and expected
  increase 225, respectively 120 and 360), whatever the other metrics are.
\<close>

theorem C9_sample_strategies:
  "filter (is_kind ''ad_spend_increase'')
      (actions (generate_scaling_strategy (default_engine now) p
                  (m\<lparr>current_revenue := Some 750\<rparr>)))
    = [\<lparr>atype = Some ''ad_spend_increase'', multiplier = Some 1.5,
         budget = Some 225, expected_increase = Some 375\<rparr>]
  \<and> filter (is_kind ''ad_spend_increase'')
      (actions (generate_scaling_strategy (default_engine now) p'
                  (m'\<lparr>current_revenue := Some 1200\<rparr>)))
    = [\<lparr>atype = Some ''ad_spend_increase'', multiplier = Some 1.5,
         budget = Some 360, expected_increase = Some 600\<rparr>]
  \<and> filter (is_kind ''price_optimization'')
      (actions (generate_scaling_strategy (default_engine now) p
                  (m\<lparr>current_revenue := Some 750\<rparr>)))
    = [\<lparr>atype = Some ''price_optimization'', multiplier = Some 1.3,
         budget = Some 75, expected_increase = Some 225\<rparr>]
  \<and> filter (is_kind ''price_optimization'')
      (actions (generate_scaling_strategy (default_engine now) p'
                  (m'\<lparr>current_revenue := Some 1200\<rparr>)))
    = [\<lparr>atype = Some ''price_optimization'', multiplier = Some 1.3,
         budget = Some 120, expected_increase = Some 360\<rparr>]"
  by (simp add: generate_scaling_strategy_def generate_scaling_strategy_try_def
        strategy_actions_def dict_get_def dict_item_def Let_def default_engine_def is_kind_def)

subsection \<open>The scorer is a function of products and configuration\<close>

text \<open>
  C6. The scorer leaves the engine as it is, a second call on the engine it returns
  gives the same ranking (with the same scores and ROI values, which are fields of the
  ranked candidates), and the ranking does not depend on the performance counters,
  the only part of the engine that changes over time: it is the same after any
  update of them, in particular after any run of the executor.
\<close>

theorem C6_scorer_deterministic:
  "snd (analyze_scaling_opportunities e ps) = e
   \<and> fst (analyze_scaling_opportunities (snd (analyze_scaling_opportunities e ps)) ps)
       = fst (analyze_scaling_opportunities e ps)
   \<and> fst (analyze_scaling_opportunities (e\<lparr>performance_metrics := pm\<rparr>) ps)
       = fst (analyze_scaling_opportunities e ps)
   \<and> fst (analyze_scaling_opportunities
             (snd (execute_scaling_actions e cands resolved elapsed now)) ps)
       = fst (analyze_scaling_opportunities e ps)"
  by (simp add: analyze_scaling_opportunities_def execute_scaling_actions_def Let_def collect_pm)

subsection \<open>The confidence gate\<close>

text \<open>
  C10. Every candidate that the scorer returns has an opportunity score of at least
  0.8, whatever the engine (so whatever the concurrency cap); its score is the score
  of its product, which is one of the products given.
\<close>

theorem C10_confidence_gate:
  assumes "c \<in> set (fst (analyze_scaling_opportunities e ps))"
  shows "0.8 \<le> opportunity_score c
       \<and> opportunity_score c
           = calculate_opportunity_score e (calculate_product_metrics (product c))
       \<and> product c \<in> set ps"
  using assms analyze_subset [of e ps] collect_candidates_sound [of c e ps] by blast

theorem C10_confidence_gate_witness:
  "hd (fst (analyze_scaling_opportunities (default_engine []) [sample_product_1, strong_product]))
     \<in> set (fst (analyze_scaling_opportunities (default_engine [])
                   [sample_product_1, strong_product]))
   \<and> 0.8 \<le> opportunity_score
        (hd (fst (analyze_scaling_opportunities (default_engine [])
                   [sample_product_1, strong_product])))
   \<and> product (hd (fst (analyze_scaling_opportunities (default_engine [])
                          [sample_product_1, strong_product]))) = strong_product"
proof -
  let ?R = "fst (analyze_scaling_opportunities (default_engine [])
                   [sample_product_1, strong_product])"
  have k: "max_concurrent_scales (scaling_thresholds (default_engine [])) = 5"
    by (simp add: default_engine_def)
  have R: "?R = collect_candidates (default_engine []) [sample_product_1, strong_product]"
    unfolding analyze_scaling_opportunities_def Let_def strong_collect k
    by (simp add: sort_reverse_singleton py_slice_singleton)
  have h: "hd ?R \<in> set ?R" unfolding R strong_collect by simp
  have p: "product (hd ?R) = strong_product" unfolding R strong_collect by simp
  show ?thesis using C10_confidence_gate [OF h] h p by simp
qed

subsection \<open>Aggregation of a batch\<close>

text \<open>
  C2 as stated fails: a unit of unknown kind resolves to a dictionary of status
  \<^verbatim>\<open>unknown_action\<close>, which is no exception, so the report counts it as executed
  (1, success rate 100, failed 0) although no result has the status success.
\<close>

theorem C2_aggregation_counterexample:
  "wait_for_batch all_resolved (batch_units [unknown_candidate])
     = [Inr (unknown_result ''content_variation'')]
   \<and> successes (wait_for_batch all_resolved (batch_units [unknown_candidate])) = []
   \<and> executed_actions (fst (execute_scaling_actions (default_engine []) [unknown_candidate]
                               all_resolved 0 [])) = 1
   \<and> failed_actions (fst (execute_scaling_actions (default_engine []) [unknown_candidate]
                               all_resolved 0 [])) = 0
   \<and> success_rate (fst (execute_scaling_actions (default_engine []) [unknown_candidate]
                               all_resolved 0 [])) = 100
   \<and> \<not> spec_aggregation (wait_for_batch all_resolved (batch_units [unknown_candidate]))
         (fst (execute_scaling_actions (default_engine []) [unknown_candidate] all_resolved 0 []))"
  by (simp add: execute_scaling_actions_def Let_def unknown_batch initial_report_def
        spec_aggregation_def successes_def is_success_def unknown_result_def)

text \<open>
  C2, amended. For every batch and every run, \<^verbatim>\<open>executed_actions\<close> is the number of
  outcomes that are no exception (whatever their status), \<^verbatim>\<open>failed_actions\<close> is the
  number of outcomes that are exceptions, the two totals are the sums of investment
  and expected return over the outcomes that are no exception, which equal the sums
  over the results of status success (every other result carries 0), and the success
  rate is \<^verbatim>\<open>executed_actions\<close> over the number of units times 100, 0 for no unit.
\<close>

theorem C2_aggregation:
  "executed_actions (fst (execute_scaling_actions e cands resolved elapsed now))
     = length (values_of (wait_for_batch resolved (batch_units cands)))
   \<and> failed_actions (fst (execute_scaling_actions e cands resolved elapsed now))
     = length (exceptions_of (wait_for_batch resolved (batch_units cands)))
   \<and> total_investment (fst (execute_scaling_actions e cands resolved elapsed now))
     = sum_list (map investment (values_of (wait_for_batch resolved (batch_units cands))))
   \<and> total_investment (fst (execute_scaling_actions e cands resolved elapsed now))
     = sum_list (map investment (successes (wait_for_batch resolved (batch_units cands))))
   \<and> total_expected_return (fst (execute_scaling_actions e cands resolved elapsed now))
     = sum_list (map expected_return (values_of (wait_for_batch resolved (batch_units cands))))
   \<and> total_expected_return (fst (execute_scaling_actions e cands resolved elapsed now))
     = sum_list (map expected_return (successes (wait_for_batch resolved (batch_units cands))))
   \<and> success_rate (fst (execute_scaling_actions e cands resolved elapsed now))
     = (if length (wait_for_batch resolved (batch_units cands)) = 0 then 0
        else real (executed_actions (fst (execute_scaling_actions e cands resolved elapsed now)))
             / real (length (wait_for_batch resolved (batch_units cands))) * 100)"
proof -
  let ?rs = "wait_for_batch resolved (batch_units cands)"
  have zi: "sum_list (map investment (successes ?rs)) = sum_list (map investment (values_of ?rs))"
    unfolding successes_def
    by (rule sum_list_filter_zero) (use batch_non_success_zero in blast)
  have zr: "sum_list (map expected_return (successes ?rs))
              = sum_list (map expected_return (values_of ?rs))"
    unfolding successes_def
    by (rule sum_list_filter_zero) (use batch_non_success_zero in blast)
  show ?thesis
    using report_fields [of e cands resolved elapsed now] zi zr by simp
qed

subsection \<open>The shared deadline\<close>

text \<open>
  C1 as stated fails: with task 0 (an ad-spend action that resolves to investment 225
  and expected return 375) finished and task 1 pending at the deadline, both units are
  reported as timeouts and the totals of the report are 0, not 225 and 375.
\<close>

theorem C1_timeout_counterexample:
  "second_pending 0 \<and> \<not> second_pending 1
   \<and> batch_units [two_action_candidate]
       = [(sample_product_1, ad_spend_action), (sample_product_1, price_action)]
   \<and> execute_single_action sample_product_1 ad_spend_action
       = Inr \<lparr>investment = 225, expected_return = 375,
              action_type = Some ''ad_spend_increase'', status = ''success''\<rparr>
   \<and> wait_for_batch second_pending (batch_units [two_action_candidate])
       = [Inr timeout_result, Inr timeout_result]
   \<and> total_investment (fst (execute_scaling_actions (default_engine []) [two_action_candidate]
                               second_pending 30 [])) = 0
   \<and> total_expected_return (fst (execute_scaling_actions (default_engine [])
                               [two_action_candidate] second_pending 30 [])) = 0"
proof -
  have w: "wait_for_batch second_pending
              [(sample_product_1, ad_spend_action), (sample_product_1, price_action)]
       = [Inr timeout_result, Inr timeout_result]"
    by (simp add: wait_for_batch_def second_pending_def upt_rec)
  have x: "execute_single_action sample_product_1 ad_spend_action
       = Inr \<lparr>investment = 225, expected_return = 375,
              action_type = Some ''ad_spend_increase'', status = ''success''\<rparr>"
    by (simp add: execute_single_action_def ad_spend_action_def dict_item_def increase_ad_spend_def)
  show ?thesis
    by (simp add: execute_scaling_actions_def Let_def w x initial_report_def timeout_result_def
          two_units second_pending_def)
qed

text \<open>
  C1, amended. When some unit of the batch is still pending at the deadline, every
  unit, finished or pending, is reported with status \<^verbatim>\<open>timeout\<close>, investment 0 and
  expected return 0, and the totals of the report are 0. (When the call returns is
  not modelled.)
\<close>

theorem C1_timeout_all_units:
  assumes "i < length (batch_units cands)" and "\<not> resolved i"
  shows "wait_for_batch resolved (batch_units cands)
           = replicate (length (batch_units cands)) (Inr timeout_result)
       \<and> status timeout_result = ''timeout''
       \<and> investment timeout_result = 0 \<and> expected_return timeout_result = 0
       \<and> total_investment (fst (execute_scaling_actions e cands resolved elapsed now)) = 0
       \<and> total_expected_return (fst (execute_scaling_actions e cands resolved elapsed now)) = 0"
  using report_fields(3,4) [of e cands resolved elapsed now]
    timeout_batch [of i "batch_units cands" resolved, OF assms]
  by (simp add: values_of_replicate sum_list_replicate timeout_result_def)

theorem C1_timeout_all_units_witness:
  "1 < length (batch_units [two_action_candidate]) \<and> \<not> second_pending 1
   \<and> wait_for_batch second_pending (batch_units [two_action_candidate])
       = [Inr timeout_result, Inr timeout_result]
   \<and> total_investment (fst (execute_scaling_actions (default_engine []) [two_action_candidate]
                               second_pending 30 [])) = 0"
proof -
  have h1: "1 < length (batch_units [two_action_candidate])" by (simp add: two_units)
  have h2: "\<not> second_pending 1" by (simp add: second_pending_def)
  show ?thesis
    using C1_timeout_all_units [of 1 "[two_action_candidate]" second_pending
            "default_engine []" 30 "[]", OF h1 h2] h1 h2
    by (simp add: two_units)
qed

subsection \<open>Growth rate from the history\<close>

text \<open>
  C3 as stated fails in two ways. With a history of two samples the window before the
  last 7 samples is empty, the division by its length raises, and the metrics are the
  dictionary of the \<^verbatim>\<open>except\<close> branch: growth rate 0 (not 25) and current revenue 0
  (not the snapshot 750). With a negative mean of the preceding samples the growth
  rate is 25, not the quotient (here -110).
\<close>

theorem C3_growth_rate_counterexample:
  "historical_data two_sample_product = Some [100, 200]
   \<and> daily_revenue two_sample_product = Some 750
   \<and> spec_growth_rate [100, 200] = 25
   \<and> calculate_product_metrics two_sample_product = metrics_on_error
   \<and> growth_rate (calculate_product_metrics two_sample_product) = Some 0
   \<and> current_revenue (calculate_product_metrics two_sample_product) = Some 0
   \<and> conversion_rate (calculate_product_metrics two_sample_product) = Some 0
   \<and> historical_data negative_history_product = Some [- 10, 1, 1, 1, 1, 1, 1, 1]
   \<and> spec_growth_rate [- 10, 1, 1, 1, 1, 1, 1, 1] = - 110
   \<and> growth_rate (calculate_product_metrics negative_history_product) = Some 25"
proof -
  have a: "calculate_product_metrics two_sample_product = metrics_on_error"
    by (simp add: calculate_product_metrics_def calculate_product_metrics_try_def
          two_sample_product_def sample_product_1_def dict_get_def py_slice_last_7
          py_slice_preceding_7 last_7_def preceding_7_def py_truediv_def)
  have b: "spec_growth_rate [100, 200] = 25"
    by (simp add: spec_growth_rate_def mean_def preceding_7_def)
  have c: "spec_growth_rate [- 10, 1, 1, 1, 1, 1, 1, 1] = - 110"
    by (simp add: spec_growth_rate_def mean_def preceding_7_def last_7_def)
  have d: "growth_rate (calculate_product_metrics negative_history_product) = Some 25"
    by (simp add: calculate_product_metrics_def calculate_product_metrics_try_def
          negative_history_product_def sample_product_1_def dict_get_def py_slice_last_7
          py_slice_preceding_7 last_7_def preceding_7_def py_truediv_def)
  show ?thesis
    by (simp add: a b c d metrics_on_error_def)
       (simp add: two_sample_product_def negative_history_product_def sample_product_1_def)
qed

text \<open>
  C3, amended. For a history of at least 8 samples the growth rate is the mean of the
  last 7 samples minus the mean of the up to 7 samples before them, over the latter
  mean, times 100, when the latter mean is positive, and 25 otherwise; the current
  revenue is the snapshot value and the other metrics are their snapshot or default
  values.
\<close>

theorem C3_growth_rate:
  assumes "historical_data p = Some h" and "8 \<le> length h"
  shows "calculate_product_metrics p =
     \<lparr>current_revenue = Some (dict_get (daily_revenue p) 0),
      growth_rate = Some (if mean (preceding_7 h) > 0
                          then (mean (last_7 h) - mean (preceding_7 h)) / mean (preceding_7 h) * 100
                          else 25),
      conversion_rate = Some (dict_get (p_conversion_rate p) 2.5),
      traffic_volume = Some (dict_get (p_traffic_volume p) 1000),
      profit_margin = Some (dict_get (p_profit_margin p) 0.7),
      customer_acquisition_cost = Some (dict_get (cac p) 50),
      lifetime_value = Some (dict_get (ltv p) 200)\<rparr>"
  by (simp add: calculate_product_metrics_def metrics_try_long [OF assms])

theorem C3_growth_rate_witness:
  "historical_data sample_product_1
     = Some [500, 550, 600, 650, 700, 750, 800, 850, 900, 950, 1000]
   \<and> 8 \<le> length [500, 550, 600, 650, 700, 750, 800, 850, 900, 950, 1000 :: real]
   \<and> calculate_product_metrics sample_product_1 =
     \<lparr>current_revenue = Some 750, growth_rate = Some (1100 / 23), conversion_rate = Some 3.2,
      traffic_volume = Some 1000, profit_margin = Some 0.8,
      customer_acquisition_cost = Some 50, lifetime_value = Some 200\<rparr>"
proof -
  have h1: "historical_data sample_product_1
     = Some [500, 550, 600, 650, 700, 750, 800, 850, 900, 950, 1000]"
    by (simp add: sample_product_1_def)
  have h2: "8 \<le> length [500, 550, 600, 650, 700, 750, 800, 850, 900, 950, 1000 :: real]"
    by simp
  show ?thesis
    using C3_growth_rate [OF h1 h2] h1
    by (simp add: sample_1_means) (simp add: sample_product_1_def dict_get_def)
qed

subsection \<open>Ranking and truncation\<close>

text \<open>
  C4 as stated fails: with the cap 1 and the two sample products of the repository
  (2 candidates, both below the gate) the scorer returns no candidate, not 1.
\<close>

theorem C4_ranking_counterexample:
  "max_concurrent_scales (scaling_thresholds engine_cap_1) = 1
   \<and> length [sample_product_1, sample_product_2] = 2
   \<and> fst (analyze_scaling_opportunities engine_cap_1 [sample_product_1, sample_product_2]) = []
   \<and> length (fst (analyze_scaling_opportunities engine_cap_1
                     [sample_product_1, sample_product_2])) \<noteq> 1"
proof -
  have "collect_candidates engine_cap_1 [sample_product_1, sample_product_2] = []"
    unfolding collect_nil_iff by (simp add: cap_1_gate)
  then show ?thesis
    by (simp add: analyze_scaling_opportunities_def Let_def sort_reverse_def py_slice_def
          cap_1_fields)
qed

text \<open>
  C4, amended. For a cap \<open>K \<ge> 0\<close> the scorer returns \<open>min K M\<close> candidates, \<open>M\<close> being
  the number of products that pass the gate; they are in descending order of score
  times ROI, they are among the candidates that pass the gate, and each of them has a
  key at least as large as every passing candidate that is not returned. The candidates
  that pass the gate are those of the products with a score of at least 0.8, in the
  order of the input. For no product the result is empty.
\<close>

theorem C4_ranking:
  assumes "0 \<le> max_concurrent_scales (scaling_thresholds e)"
  shows "length (fst (analyze_scaling_opportunities e ps))
           = min (nat (max_concurrent_scales (scaling_thresholds e)))
                 (length (filter (passes_gate e) ps))
       \<and> sorted_wrt (\<lambda>a b. rank_key b \<le> rank_key a) (fst (analyze_scaling_opportunities e ps))
       \<and> (\<exists>rest. mset (fst (analyze_scaling_opportunities e ps)) + mset rest
                     = mset (collect_candidates e ps)
                 \<and> (\<forall>a\<in>set (fst (analyze_scaling_opportunities e ps)).
                       \<forall>b\<in>set rest. rank_key b \<le> rank_key a))
       \<and> map product (collect_candidates e ps) = filter (passes_gate e) ps
       \<and> fst (analyze_scaling_opportunities e []) = []"
proof -
  let ?K = "nat (max_concurrent_scales (scaling_thresholds e))"
  let ?ys = "sort_reverse rank_key (collect_candidates e ps)"
  have R: "fst (analyze_scaling_opportunities e ps) = take ?K ?ys"
    using assms by (simp add: analyze_scaling_opportunities_def Let_def py_slice_take)
  have len: "length (take ?K ?ys) = min ?K (length (filter (passes_gate e) ps))"
    by (simp add: length_sort_reverse length_collect)
  have top: "sorted_wrt (\<lambda>a b. rank_key b \<le> rank_key a) (take ?K ?ys)
       \<and> (\<forall>a\<in>set (take ?K ?ys). \<forall>b\<in>set (drop ?K ?ys). rank_key b \<le> rank_key a)"
    by (rule top_of_sorted) (rule sort_reverse_sorted)
  have "mset (take ?K ?ys) + mset (drop ?K ?ys) = mset ?ys"
    by (simp flip: mset_append)
  then have ms: "mset (take ?K ?ys) + mset (drop ?K ?ys) = mset (collect_candidates e ps)"
    by (simp add: sort_reverse_mset)
  have ex: "\<exists>rest. mset (take ?K ?ys) + mset rest = mset (collect_candidates e ps)
                 \<and> (\<forall>a\<in>set (take ?K ?ys). \<forall>b\<in>set rest. rank_key b \<le> rank_key a)"
    using ms top by blast
  have emp: "fst (analyze_scaling_opportunities e []) = []"
    by (simp add: analyze_scaling_opportunities_def Let_def sort_reverse_def py_slice_def)
  show ?thesis
    unfolding R using len top ex collect_products [of e ps] emp [unfolded R] emp by simp
qed

theorem C4_ranking_witness:
  "0 \<le> max_concurrent_scales (scaling_thresholds engine_cap_1)
   \<and> length (fst (analyze_scaling_opportunities engine_cap_1
                     [strong_product, stronger_product])) = 1
   \<and> map product (fst (analyze_scaling_opportunities engine_cap_1
                          [strong_product, stronger_product])) = [stronger_product]"
proof -
  have h: "0 \<le> max_concurrent_scales (scaling_thresholds engine_cap_1)"
    by (simp add: cap_1_fields)
  show ?thesis
    using C4_ranking [OF h, of "[strong_product, stronger_product]"] h cap_1_products
    by (simp add: cap_1_gate cap_1_fields)
qed

end
